theory Spec2Isabelle
  imports Complex_Main "HOL-Library.Log_Nat"
begin

section \<open>marker2nii: marker values mapped onto a volumetric atlas\<close>

text \<open>
  A shallow embedding of \<^verbatim>\<open>src/marker2nii/marker2nii.py\<close>. Python exceptions are values of
  the type \<open>error\<close>; a function that may raise returns \<open>error + 'a\<close> with \<open>Inl\<close> the exception.
  An \<open>assert\<close> that fails raises \<open>AssertionError\<close> (the interpreter runs without \<open>-O\<close>).
  The labels of an atlas are integers, the entries of a marker vector are float64 values.
\<close>

datatype error =
    AssertionError
  | ValueError
  | IndexError
  | FileNotFoundError
  | FileExistsError
  | IsADirectoryError
  | KeyError
  | ParserError
  | ImageFileError

subsection \<open>float64 values\<close>

text \<open>
  The entries of a marker vector and the voxels of a mapped volume are NumPy \<open>float64\<close>
  values: not-a-number, the two infinities, or a finite number. A finite value is carried by
  the real it denotes (the two signed zeros are one value, as they are for \<open>==\<close>).
\<close>

datatype float64 = NaN | NInf | Fin real | PInf

definition isnan :: "float64 \<Rightarrow> bool" where
  "isnan x = (x = NaN)"

text \<open>The comparison \<open><\<close> of IEEE 754: false as soon as one side is not-a-number.\<close>

fun fless :: "float64 \<Rightarrow> float64 \<Rightarrow> bool" where
  "fless NaN y = False"
| "fless x NaN = False"
| "fless NInf NInf = False"
| "fless NInf y = True"
| "fless (Fin a) NInf = False"
| "fless (Fin a) (Fin b) = (a < b)"
| "fless (Fin a) PInf = True"
| "fless PInf y = False"

text \<open>
  Rounding of a real to the nearest binary64 number, ties to even: 53 significant bits,
  exponents from \<open>-1022\<close> (below that the spacing stays \<open>2 powi -1074\<close>) to \<open>1023\<close>,
  overflow to an infinity. \<open>ilog2 a\<close> is the exponent of the binade of \<open>a > 0\<close>.
\<close>

definition ilog2 :: "real \<Rightarrow> int" where
  "ilog2 a = (if 1 \<le> a then bitlen \<lfloor>a\<rfloor> - 1 else - bitlen (\<lceil>1 / a\<rceil> - 1))"

definition round_half_even :: "real \<Rightarrow> int" where
  "round_half_even q =
     (let f = \<lfloor>q\<rfloor>; r = q - of_int f
      in if r < 1 / 2 then f else if 1 / 2 < r then f + 1 else if even f then f else f + 1)"

definition round64 :: "real \<Rightarrow> float64" where
  "round64 x =
     (if x = 0 then Fin 0
      else
        let a = \<bar>x\<bar>;
            e = max (ilog2 a) (- 1022);
            ulp = 2 powi (e - 52);
            y = of_int (round_half_even (a / ulp)) * ulp
        in if 2 powi 1024 \<le> y then (if x < 0 then NInf else PInf)
           else Fin (if x < 0 then - y else y))"

text \<open>The subtraction of two float64 values (\<open>marker_min - 20000\<close> in the source).\<close>

fun fsub :: "float64 \<Rightarrow> float64 \<Rightarrow> float64" where
  "fsub NaN y = NaN"
| "fsub x NaN = NaN"
| "fsub PInf PInf = NaN"
| "fsub NInf NInf = NaN"
| "fsub PInf y = PInf"
| "fsub NInf y = NInf"
| "fsub (Fin a) PInf = NInf"
| "fsub (Fin a) NInf = PInf"
| "fsub (Fin a) (Fin b) = round64 (a - b)"

subsection \<open>The NumPy operations map_to_atlas uses\<close>

text \<open>
  An array is the list of its elements in storage order; the operations below are all
  element-wise, so the shape is kept beside the list (in the image record).
  \<open>np.min\<close> and \<open>np.max\<close> raise \<open>ValueError\<close> on an empty array.
\<close>

definition fminimum :: "float64 \<Rightarrow> float64 \<Rightarrow> float64" where
  "fminimum a b = (if fless b a then b else a)"

definition fmaximum :: "float64 \<Rightarrow> float64 \<Rightarrow> float64" where
  "fmaximum a b = (if fless a b then b else a)"

definition np_min :: "float64 list \<Rightarrow> error + float64" where
  "np_min xs = (case xs of [] \<Rightarrow> Inl ValueError | x # ys \<Rightarrow> Inr (foldl fminimum x ys))"

definition np_max :: "float64 list \<Rightarrow> error + float64" where
  "np_max xs = (case xs of [] \<Rightarrow> Inl ValueError | x # ys \<Rightarrow> Inr (foldl fmaximum x ys))"

text \<open>\<open>np.unique\<close>: the distinct elements, ascending.\<close>

definition np_unique :: "int list \<Rightarrow> int list" where
  "np_unique xs = sort (remdups xs)"

definition np_zeros :: "nat \<Rightarrow> float64 list" where
  "np_zeros n = replicate n (Fin 0)"

text \<open>
  \<open>marker[i]\<close> with a Python integer: a negative index counts from the end, an index
  outside \<open>-n .. n-1\<close> raises \<open>IndexError\<close>.
\<close>

definition getitem :: "'a list \<Rightarrow> int \<Rightarrow> error + 'a" where
  "getitem xs i =
     (let n = int (length xs)
      in if 0 \<le> i \<and> i < n then Inr (xs ! nat i)
         else if - n \<le> i \<and> i < 0 then Inr (xs ! nat (n + i))
         else Inl IndexError)"

text \<open>
  \<open>arr[mask] = v\<close> where the mask is \<open>p\<close> applied element-wise to an array \<open>src\<close> of the
  same shape.
\<close>

definition assign_where :: "('a \<Rightarrow> bool) \<Rightarrow> 'a list \<Rightarrow> 'b \<Rightarrow> 'b list \<Rightarrow> 'b list" where
  "assign_where p src v arr = map2 (\<lambda>a old. if p a then v else old) src arr"

subsection \<open>Images\<close>

text \<open>
  A volumetric image: its shape, its voxels in storage order, its affine (any type: the
  program only copies it) and the two display-range fields of its header. The atlas is an
  image of integer labels, the mapped volume an image of float64 values.
  \<open>new_img_like\<close> (nilearn) builds an image on new data with the affine of a reference image
  and a fresh header.
\<close>

record ('d, 'aff) niimg =
  shape :: "nat list"
  dataobj :: "'d list"
  affine :: 'aff
  cal_max :: float64
  cal_min :: float64

definition new_img_like :: "('a, 'aff) niimg \<Rightarrow> nat list \<Rightarrow> 'b list \<Rightarrow> ('b, 'aff) niimg" where
  "new_img_like ref shp arr =
     \<lparr>shape = shp, dataobj = arr, affine = affine ref, cal_max = Fin 0, cal_min = Fin 0\<rparr>"

subsection \<open>map_to_atlas\<close>

text \<open>The loop \<open>for roi in rois\<close> (lines 87 to 93), threading \<open>marker_img_array\<close>.\<close>

fun roi_loop :: "float64 list \<Rightarrow> int list \<Rightarrow> int list \<Rightarrow> float64 list \<Rightarrow> error + float64 list" where
  "roi_loop marker atlas_array [] img = Inr img"
| "roi_loop marker atlas_array (roi # rois) img =
     (if roi = 0 then roi_loop marker atlas_array rois img
      else
        case getitem marker (roi - 1) of
          Inl e \<Rightarrow> Inl e
        | Inr v \<Rightarrow> roi_loop marker atlas_array rois (assign_where (\<lambda>a. a = roi) atlas_array v img))"

definition map_to_atlas :: "float64 list \<Rightarrow> (int, 'aff) niimg \<Rightarrow> error + (float64, 'aff) niimg" where
  "map_to_atlas marker atlas =
     (let atlas_array = dataobj atlas;
          rois = np_unique atlas_array
      in if int (length rois) - 1 \<noteq> int (length marker) then Inl AssertionError
         else
           let marker_img_array = np_zeros (length atlas_array);
               marker_no_na = filter (\<lambda>x. \<not> isnan x) marker
           in case np_min marker_no_na of
                Inl e \<Rightarrow> Inl e
              | Inr marker_min \<Rightarrow>
                  (case np_max marker_no_na of
                     Inl e \<Rightarrow> Inl e
                   | Inr marker_max \<Rightarrow>
                       (case roi_loop marker atlas_array rois marker_img_array of
                          Inl e \<Rightarrow> Inl e
                        | Inr arr1 \<Rightarrow>
                            let sentinel = fsub marker_min (Fin 20000);
                                arr2 = assign_where isnan arr1 sentinel arr1;
                                arr3 = assign_where (\<lambda>a. a = 0) atlas_array sentinel arr2;
                                marker_img = new_img_like atlas (shape atlas) arr3
                            in Inr (marker_img\<lparr>cal_max := marker_max, cal_min := marker_min\<rparr>))))"

subsection \<open>Paths and the file system\<close>

text \<open>
  \<open>os.path.split\<close> and \<open>os.path.splitext\<close> as \<^verbatim>\<open>posixpath\<close> defines them (paths are POSIX
  paths). \<open>cut_at_sep p\<close> is
  \<open>(p[:i], p[i:])\<close> for \<open>i\<close> just after the last slash (\<open>i = 0\<close> when there is none).
  \<open>split\<close> strips the trailing slashes of the head unless the head is slashes only;
  \<open>splitext\<close> cuts at the last dot of the last component, unless only dots precede it there.
\<close>

definition cut_at_sep :: "string \<Rightarrow> string \<times> string" where
  "cut_at_sep p =
     (rev (dropWhile (\<lambda>c. c \<noteq> CHR ''/'') (rev p)), rev (takeWhile (\<lambda>c. c \<noteq> CHR ''/'') (rev p)))"

definition os_path_split :: "string \<Rightarrow> string \<times> string" where
  "os_path_split p =
     (let (head, tail) = cut_at_sep p
      in if head \<noteq> [] \<and> head \<noteq> replicate (length head) (CHR ''/'')
         then (rev (dropWhile (\<lambda>c. c = CHR ''/'') (rev head)), tail)
         else (head, tail))"

definition splitext :: "string \<Rightarrow> string \<times> string" where
  "splitext p =
     (let (dir, name) = cut_at_sep p
      in if CHR ''.'' \<in> set name
         then
           let stem = rev (tl (dropWhile (\<lambda>c. c \<noteq> CHR ''.'') (rev name)));
               ext = CHR ''.'' # rev (takeWhile (\<lambda>c. c \<noteq> CHR ''.'') (rev name))
           in if list_ex (\<lambda>c. c \<noteq> CHR ''.'') stem then (dir @ stem, ext) else (p, [])
         else (p, []))"

text \<open>
  \<open>Path(a) / b\<close>, and the file system as far as the program observes it: an association
  list from path strings to what is there, a directory or a file (with the image written to
  it, when the program wrote it); the first entry for a path is the current one. Paths are
  compared as strings: the normalisation that \<open>pathlib\<close> and the operating system apply (a
  trailing slash, \<open>.\<close> and \<open>..\<close>) is not modelled. \<open>os.mkdir\<close> raises \<open>FileExistsError\<close> when anything is at the path;
  \<open>to_filename\<close> writes or overwrites a file.
\<close>

definition path_join :: "string \<Rightarrow> string \<Rightarrow> string" where
  "path_join a b = a @ ''/'' @ b"

datatype 'i node = Dir | File "'i option"

type_synonym 'i fs = "(string \<times> 'i node) list"

definition isdir :: "'i fs \<Rightarrow> string \<Rightarrow> bool" where
  "isdir fs p = (map_of fs p = Some Dir)"

definition mkdir :: "'i fs \<Rightarrow> string \<Rightarrow> error + 'i fs" where
  "mkdir fs p = (if map_of fs p \<noteq> None then Inl FileExistsError else Inr ((p, Dir) # fs))"

definition to_filename :: "'i fs \<Rightarrow> string \<Rightarrow> 'i \<Rightarrow> error + 'i fs" where
  "to_filename fs p img =
     (if map_of fs p = Some Dir then Inl IsADirectoryError else Inr ((p, File (Some img)) # fs))"

subsection \<open>read_markers\<close>

text \<open>
  A marker table is the list of its columns, each a name and a vector, in column order.
  The two library readers are parameters: \<open>loadtxt path\<close> is what \<open>np.loadtxt\<close> returns for
  the file, \<open>read_csv path sep\<close> what \<open>pd.read_csv(path, index_col=0, sep=sep)\<close> returns.
\<close>

type_synonym marker_table = "(string \<times> float64 list) list"

definition read_markers ::
  "(string \<Rightarrow> error + float64 list) \<Rightarrow> (string \<Rightarrow> char \<Rightarrow> error + marker_table) \<Rightarrow> string
     \<Rightarrow> error + marker_table" where
  "read_markers loadtxt read_csv markers_path =
     (let tail = snd (os_path_split markers_path);
          ext = snd (splitext markers_path)
      in if ext \<notin> set [''.csv'', ''.tsv'', ''.csv''] then Inl AssertionError
         else if ext \<in> set [''.txt'']
         then (case loadtxt markers_path of
                 Inl e \<Rightarrow> Inl e
               | Inr column \<Rightarrow> Inr [(tail, column)])
         else (case map_of [(''.csv'', CHR '',''), (''.tsv'', CHR 0x09)] ext of
                 None \<Rightarrow> Inl KeyError
               | Some sep \<Rightarrow> read_csv markers_path sep))"

subsection \<open>prepare_output and main\<close>

definition prepare_output :: "'i fs \<Rightarrow> string \<Rightarrow> string \<Rightarrow> error + string \<times> 'i fs" where
  "prepare_output fs out_folder marker_file =
     (if \<not> isdir fs out_folder then Inl FileNotFoundError
      else
        let tail = snd (os_path_split marker_file);
            file_name = fst (splitext tail);
            output_folder = path_join out_folder file_name
        in if \<not> isdir fs output_folder
           then (case mkdir fs output_folder of
                   Inl e \<Rightarrow> Inl e
                 | Inr fs' \<Rightarrow> Inr (output_folder, fs'))
           else Inr (output_folder, fs))"

text \<open>
  The loop of \<open>main\<close> over the columns of the table. An exception ends the run; what was
  written before it stays, so the result is the exception (if any) and the file system.
\<close>

fun marker_loop ::
  "(int, 'aff) niimg \<Rightarrow> string \<Rightarrow> marker_table \<Rightarrow> (float64, 'aff) niimg fs
     \<Rightarrow> error option \<times> (float64, 'aff) niimg fs" where
  "marker_loop parcellation output_folder [] fs = (None, fs)"
| "marker_loop parcellation output_folder ((marker, column) # rest) fs =
     (case map_to_atlas column parcellation of
        Inl e \<Rightarrow> (Some e, fs)
      | Inr marker_img \<Rightarrow>
          (case to_filename fs (path_join output_folder (marker @ ''.nii.gz'')) marker_img of
             Inl e \<Rightarrow> (Some e, fs)
           | Inr fs' \<Rightarrow> marker_loop parcellation output_folder rest fs'))"

definition main ::
  "(string \<Rightarrow> error + (int, 'aff) niimg) \<Rightarrow> (string \<Rightarrow> error + float64 list)
     \<Rightarrow> (string \<Rightarrow> char \<Rightarrow> error + marker_table) \<Rightarrow> (float64, 'aff) niimg fs
     \<Rightarrow> string \<Rightarrow> string \<Rightarrow> string \<Rightarrow> error option \<times> (float64, 'aff) niimg fs" where
  "main load_img loadtxt read_csv fs marker_file parcellation_file out_folder =
     (case prepare_output fs out_folder marker_file of
        Inl e \<Rightarrow> (Some e, fs)
      | Inr (output_folder, fs1) \<Rightarrow>
          (case load_img parcellation_file of
             Inl e \<Rightarrow> (Some e, fs1)
           | Inr parcellation \<Rightarrow>
               (case read_markers loadtxt read_csv marker_file of
                  Inl e \<Rightarrow> (Some e, fs1)
                | Inr markers \<Rightarrow> marker_loop parcellation output_folder markers fs1)))"

subsection \<open>The end-to-end scenario of the specification\<close>

text \<open>
  The atlas of the scenario: a \<open>2 \<times> 2 \<times> 1\<close> volume with the labels \<open>[[1, 2], [0, 0]]\<close>.
  The affine is left trivial.
\<close>

abbreviation scenario_atlas :: "(int, unit) niimg" where
  "scenario_atlas \<equiv>
     \<lparr>shape = [2, 2, 1], dataobj = [1, 2, 0, 0], affine = (), cal_max = Fin 0, cal_min = Fin 0\<rparr>"

section \<open>Properties\<close>

subsection \<open>Masked assignment and the loop over the ROIs\<close>

lemma length_assign_where: "length (assign_where p src v arr) = min (length src) (length arr)"
  by (simp add: assign_where_def)

lemma nth_assign_where:
  "i < length src \<Longrightarrow> i < length arr \<Longrightarrow>
   assign_where p src v arr ! i = (if p (src ! i) then v else arr ! i)"
  by (simp add: assign_where_def)

lemma roi_loop_length:
  "roi_loop marker A rois img = Inr out \<Longrightarrow> length img = length A \<Longrightarrow> length out = length A"
proof (induction rois arbitrary: img)
  case Nil
  then show ?case by simp
next
  case (Cons roi rois)
  show ?case
  proof (cases "roi = 0")
    case True
    with Cons show ?thesis by simp
  next
    case False
    with Cons.prems obtain v where v: "getitem marker (roi - 1) = Inr v"
      and rest: "roi_loop marker A rois (assign_where (\<lambda>a. a = roi) A v img) = Inr out"
      by (auto split: sum.splits)
    from Cons.prems(2) have "length (assign_where (\<lambda>a. a = roi) A v img) = length A"
      by (simp add: length_assign_where)
    with Cons.IH rest show ?thesis by blast
  qed
qed

lemma roi_loop_nth:
  "roi_loop marker A rois img = Inr out \<Longrightarrow> length img = length A \<Longrightarrow> i < length A \<Longrightarrow>
   (if A ! i \<in> set rois \<and> A ! i \<noteq> 0 then getitem marker (A ! i - 1) = Inr (out ! i)
    else out ! i = img ! i)"
proof (induction rois arbitrary: img)
  case Nil
  then show ?case by simp
next
  case (Cons roi rois)
  show ?case
  proof (cases "roi = 0")
    case True
    with Cons.prems have "roi_loop marker A rois img = Inr out" by simp
    from Cons.IH [OF this Cons.prems(2,3)] True show ?thesis by auto
  next
    case False
    with Cons.prems obtain v where v: "getitem marker (roi - 1) = Inr v"
      and rest: "roi_loop marker A rois (assign_where (\<lambda>a. a = roi) A v img) = Inr out"
      by (auto split: sum.splits)
    let ?img = "assign_where (\<lambda>a. a = roi) A v img"
    from Cons.prems(2) have len: "length ?img = length A"
      by (simp add: length_assign_where)
    have nth: "?img ! i = (if A ! i = roi then v else img ! i)"
      using Cons.prems(2,3) by (simp add: nth_assign_where)
    from Cons.IH [OF rest len Cons.prems(3)] nth v False show ?thesis
      by (auto split: if_splits)
  qed
qed

lemma roi_loop_Inr_iff:
  "(\<exists>out. roi_loop marker A rois img = Inr out) \<longleftrightarrow>
   (\<forall>roi \<in> set rois. roi \<noteq> 0 \<longrightarrow> (\<exists>v. getitem marker (roi - 1) = Inr v))"
  by (induction rois arbitrary: img) (auto split: sum.splits)

lemma roi_loop_error:
  "roi_loop marker A rois img = Inl e \<Longrightarrow> e = IndexError"
  by (induction rois arbitrary: img) (auto simp: getitem_def Let_def split: sum.splits if_splits)

lemma set_np_unique: "set (np_unique xs) = set xs"
  by (simp add: np_unique_def)

lemma length_np_unique: "length (np_unique xs) = card (set xs)"
  by (simp add: np_unique_def length_remdups_card_conv)

lemma fless_irrefl: "\<not> fless x x"
  by (cases x) auto

lemma fless_asym: "fless x y \<Longrightarrow> \<not> fless y x"
  by (cases x; cases y) auto

lemma fnot_less_trans:
  "x \<noteq> NaN \<Longrightarrow> y \<noteq> NaN \<Longrightarrow> z \<noteq> NaN \<Longrightarrow> \<not> fless y x \<Longrightarrow> \<not> fless z y \<Longrightarrow> \<not> fless z x"
  by (cases x; cases y; cases z) auto

lemma foldl_fminimum:
  "NaN \<notin> set (a # ys) \<Longrightarrow>
   foldl fminimum a ys \<in> set (a # ys) \<and> (\<forall>x \<in> set (a # ys). \<not> fless x (foldl fminimum a ys))"
proof (induction ys arbitrary: a)
  case Nil
  then show ?case by (simp add: fless_irrefl)
next
  case (Cons y ys)
  let ?b = "fminimum a y"
  let ?r = "foldl fminimum ?b ys"
  have b: "?b \<in> {a, y}" "\<not> fless a ?b" "\<not> fless y ?b"
    by (auto simp: fminimum_def fless_irrefl fless_asym)
  with Cons.prems have "NaN \<notin> set (?b # ys)" by auto
  from Cons.IH [OF this] have r: "?r \<in> set (?b # ys)" "\<forall>x \<in> set (?b # ys). \<not> fless x ?r"
    by auto
  from r(2) have br: "\<not> fless ?b ?r" by simp
  have rn: "?r \<noteq> NaN" using r(1) b(1) Cons.prems by auto
  have bn: "?b \<noteq> NaN" using b(1) Cons.prems by auto
  have "\<not> fless a ?r" using fnot_less_trans [OF rn bn _ br b(2)] Cons.prems by auto
  moreover have "\<not> fless y ?r" using fnot_less_trans [OF rn bn _ br b(3)] Cons.prems by auto
  ultimately show ?case using r b(1) by auto
qed


lemma np_min_least:
  "np_min (filter (\<lambda>x. \<not> isnan x) marker) = Inr m \<Longrightarrow>
   m \<in> set marker \<and> \<not> isnan m \<and> (\<forall>x \<in> set marker. \<not> isnan x \<longrightarrow> \<not> fless x m)"
proof -
  assume a: "np_min (filter (\<lambda>x. \<not> isnan x) marker) = Inr m"
  let ?xs = "filter (\<lambda>x. \<not> isnan x) marker"
  from a obtain x ys where xs: "?xs = x # ys" and m: "m = foldl fminimum x ys"
    by (auto simp: np_min_def split: list.splits)
  have "NaN \<notin> set ?xs" by (auto simp: isnan_def)
  with xs have "NaN \<notin> set (x # ys)" by simp
  from foldl_fminimum [OF this] m xs
  have "m \<in> set ?xs" "\<forall>x \<in> set ?xs. \<not> fless x m" by auto
  then show ?thesis by auto
qed


subsection \<open>What map_to_atlas returns\<close>

lemma map_to_atlas_Inr:
  assumes "map_to_atlas marker atlas = Inr img"
  obtains m mx arr1 where
    "int (length (np_unique (dataobj atlas))) - 1 = int (length marker)"
    "np_min (filter (\<lambda>x. \<not> isnan x) marker) = Inr m"
    "np_max (filter (\<lambda>x. \<not> isnan x) marker) = Inr mx"
    "roi_loop marker (dataobj atlas) (np_unique (dataobj atlas)) (np_zeros (length (dataobj atlas))) = Inr arr1"
    "img = \<lparr>shape = shape atlas,
            dataobj = assign_where (\<lambda>a. a = 0) (dataobj atlas) (fsub m (Fin 20000))
                        (assign_where isnan arr1 (fsub m (Fin 20000)) arr1),
            affine = affine atlas, cal_max = mx, cal_min = m\<rparr>"
  using assms
  by (auto simp: map_to_atlas_def Let_def new_img_like_def split: if_splits sum.splits)

lemma map_to_atlas_voxel:
  assumes "map_to_atlas marker atlas = Inr img" and i: "i < length (dataobj atlas)"
  shows "\<exists>m. np_min (filter (\<lambda>x. \<not> isnan x) marker) = Inr m \<and>
           (if dataobj atlas ! i = 0 then dataobj img ! i = fsub m (Fin 20000)
            else \<exists>v. getitem marker (dataobj atlas ! i - 1) = Inr v \<and>
                     dataobj img ! i = (if isnan v then fsub m (Fin 20000) else v))"
proof -
  let ?A = "dataobj atlas"
  from assms(1) obtain m mx arr1 where
    m: "np_min (filter (\<lambda>x. \<not> isnan x) marker) = Inr m" and
    loop: "roi_loop marker ?A (np_unique ?A) (np_zeros (length ?A)) = Inr arr1" and
    img: "img = \<lparr>shape = shape atlas,
            dataobj = assign_where (\<lambda>a. a = 0) ?A (fsub m (Fin 20000))
                        (assign_where isnan arr1 (fsub m (Fin 20000)) arr1),
            affine = affine atlas, cal_max = mx, cal_min = m\<rparr>"
    by (rule map_to_atlas_Inr)
  have len0: "length (np_zeros (length ?A)) = length ?A" by (simp add: np_zeros_def)
  have len1: "length arr1 = length ?A" by (rule roi_loop_length [OF loop len0])
  have v: "dataobj img ! i =
      (if ?A ! i = 0 then fsub m (Fin 20000)
       else if isnan (arr1 ! i) then fsub m (Fin 20000) else arr1 ! i)"
    using i len1 by (simp add: img nth_assign_where length_assign_where)
  from roi_loop_nth [OF loop len0 i]
  have "?A ! i \<noteq> 0 \<Longrightarrow> getitem marker (?A ! i - 1) = Inr (arr1 ! i)"
    using i by (simp add: set_np_unique)
  with v m show ?thesis by auto
qed

lemma getitem_nonneg:
  "getitem xs j = Inr v \<Longrightarrow> 0 \<le> j \<Longrightarrow> nat j < length xs \<and> v = xs ! nat j"
  by (auto simp: getitem_def Let_def split: if_splits)

lemma getitem_mem: "getitem xs j = Inr v \<Longrightarrow> v \<in> set xs"
  by (auto simp: getitem_def Let_def split: if_splits)

lemma np_min_error: "np_min xs = Inl e \<Longrightarrow> e = ValueError"
  by (auto simp: np_min_def split: list.splits)

lemma np_max_error: "np_max xs = Inl e \<Longrightarrow> e = ValueError"
  by (auto simp: np_max_def split: list.splits)

lemma map_to_atlas_AssertionError_iff:
  "map_to_atlas marker atlas = Inl AssertionError \<longleftrightarrow>
   int (card (set (dataobj atlas))) - 1 \<noteq> int (length marker)"
  by (auto simp: map_to_atlas_def Let_def length_np_unique 
      split: sum.splits dest: np_min_error np_max_error roi_loop_error)

lemma map_to_atlas_returns:
  assumes "int (card (set (dataobj atlas))) - 1 = int (length marker)"
    and "\<exists>x \<in> set marker. \<not> isnan x"
    and "\<forall>k \<in> set (dataobj atlas). k \<noteq> 0 \<longrightarrow> - int (length marker) \<le> k - 1 \<and> k - 1 < int (length marker)"
  shows "\<exists>img. map_to_atlas marker atlas = Inr img"
proof -
  let ?A = "dataobj atlas"
  from assms(2) have "filter (\<lambda>x. \<not> isnan x) marker \<noteq> []"
    by (simp add: filter_empty_conv)
  then obtain x ys where "filter (\<lambda>x. \<not> isnan x) marker = x # ys"
    by (cases "filter (\<lambda>x. \<not> isnan x) marker") auto
  then obtain m mx where m: "np_min (filter (\<lambda>x. \<not> isnan x) marker) = Inr m"
    and mx: "np_max (filter (\<lambda>x. \<not> isnan x) marker) = Inr mx"
    by (simp add: np_min_def np_max_def)
  from assms(3) have "\<forall>roi \<in> set (np_unique ?A). roi \<noteq> 0 \<longrightarrow> (\<exists>v. getitem marker (roi - 1) = Inr v)"
    by (auto simp: set_np_unique getitem_def Let_def)
  then obtain arr1 where "roi_loop marker ?A (np_unique ?A) (np_zeros (length ?A)) = Inr arr1"
    using roi_loop_Inr_iff by blast
  with m mx assms(1) show ?thesis
    by (simp add: map_to_atlas_def Let_def length_np_unique)
qed

text \<open>
  The scenario itself: the vector \<open>[10.0, 20.0]\<close> gives the volume
  \<open>[[10.0, 20.0], [sentinel, sentinel]]\<close> with the sentinel \<open>10.0 - 20000\<close>, \<open>cal_min = 10.0\<close>
  and \<open>cal_max = 20.0\<close>; with the second entry missing, ROI 2 is masked as well.
\<close>

lemma scenario_run:
  "map_to_atlas [Fin 10, Fin 20] scenario_atlas =
     Inr \<lparr>shape = [2, 2, 1], dataobj = [Fin 10, Fin 20, Fin (- 19990), Fin (- 19990)],
          affine = (), cal_max = Fin 20, cal_min = Fin 10\<rparr>"
  by code_simp

lemma scenario_run_missing:
  "map_to_atlas [Fin 10, NaN] scenario_atlas =
     Inr \<lparr>shape = [2, 2, 1], dataobj = [Fin 10, Fin (- 19990), Fin (- 19990), Fin (- 19990)],
          affine = (), cal_max = Fin 10, cal_min = Fin 10\<rparr>"
  by code_simp

section \<open>The claims about map_to_atlas\<close>

text \<open>
  In the theorems below \<open>map_to_atlas marker atlas = Inr img\<close> says that the call returned
  the mapped volume \<open>img\<close>. By \<open>map_to_atlas_AssertionError_iff\<close> the length validation has
  passed then, and by \<open>map_to_atlas_returns\<close> the call does return once the validation
  passes, one entry of the vector is a number and every nonzero label indexes the vector;
  otherwise it raises \<open>ValueError\<close> (no entry is a number) or \<open>IndexError\<close> (a label whose
  index lies outside the vector).
\<close>

text \<open>
  Claim C1 (positional correspondence). When map_to_atlas returns a mapped volume, a voxel
  whose atlas label is \<open>k \<ge> 1\<close> and whose marker entry \<open>v[k-1]\<close> is not NaN holds exactly
  \<open>v[k-1]\<close>; the index \<open>k - 1\<close> lies inside the vector.
\<close>

theorem map_to_atlas_positional:
  assumes "map_to_atlas marker atlas = Inr img"
    and "i < length (dataobj atlas)"
    and "dataobj atlas ! i = k" and "1 \<le> k"
    and "\<not> isnan (marker ! nat (k - 1))"
  shows "nat (k - 1) < length marker \<and> dataobj img ! i = marker ! nat (k - 1)"
proof -
  from map_to_atlas_voxel [OF assms(1,2)] assms(3,4)
  obtain m v where v: "getitem marker (k - 1) = Inr v"
    and d: "dataobj img ! i = (if isnan v then fsub m (Fin 20000) else v)"
    by auto
  from getitem_nonneg [OF v] assms(4)
  have "nat (k - 1) < length marker" "v = marker ! nat (k - 1)"
    by auto
  with d assms(5) show ?thesis by simp
qed

theorem map_to_atlas_positional_witness:
  "map_to_atlas [Fin 10, Fin 20] scenario_atlas =
     Inr \<lparr>shape = [2, 2, 1], dataobj = [Fin 10, Fin 20, Fin (- 19990), Fin (- 19990)],
          affine = (), cal_max = Fin 20, cal_min = Fin 10\<rparr>
   \<and> dataobj scenario_atlas ! 1 = 2
   \<and> \<not> isnan ([Fin 10, Fin 20] ! nat (2 - 1))
   \<and> [Fin 10, Fin 20, Fin (- 19990), Fin (- 19990)] ! 1 = [Fin 10, Fin 20 :: float64] ! nat (2 - 1)"
  using map_to_atlas_positional [OF scenario_run, of 1 2] scenario_run
  by (simp add: isnan_def)

text \<open>
  Claim C2 (masking). When map_to_atlas returns a mapped volume, the vector has a minimum
  \<open>marker_min\<close> over its non-NaN entries (an entry that no non-NaN entry is below), and every
  voxel whose label is 0, and every voxel whose label is not 0 and whose marker entry
  (\<open>marker[label - 1]\<close>, Python indexing) is NaN, holds exactly the float64 value of
  \<open>marker_min - 20000\<close>.
\<close>

theorem map_to_atlas_masked:
  assumes "map_to_atlas marker atlas = Inr img"
    and "i < length (dataobj atlas)"
    and "dataobj atlas ! i = 0 \<or> getitem marker (dataobj atlas ! i - 1) = Inr NaN"
  shows "\<exists>marker_min. np_min (filter (\<lambda>x. \<not> isnan x) marker) = Inr marker_min \<and>
           marker_min \<in> set marker \<and> \<not> isnan marker_min \<and>
           (\<forall>x \<in> set marker. \<not> isnan x \<longrightarrow> \<not> fless x marker_min) \<and>
           dataobj img ! i = fsub marker_min (Fin 20000)"
proof -
  from map_to_atlas_voxel [OF assms(1,2)] obtain m where
    m: "np_min (filter (\<lambda>x. \<not> isnan x) marker) = Inr m" and
    d: "if dataobj atlas ! i = 0 then dataobj img ! i = fsub m (Fin 20000)
        else \<exists>v. getitem marker (dataobj atlas ! i - 1) = Inr v \<and>
                 dataobj img ! i = (if isnan v then fsub m (Fin 20000) else v)"
    by blast
  from d assms(3) have "dataobj img ! i = fsub m (Fin 20000)"
    by (auto simp: isnan_def split: if_splits)
  with m np_min_least [OF m] show ?thesis by blast
qed

theorem map_to_atlas_masked_witness:
  "map_to_atlas [Fin 10, NaN] scenario_atlas =
     Inr \<lparr>shape = [2, 2, 1], dataobj = [Fin 10, Fin (- 19990), Fin (- 19990), Fin (- 19990)],
          affine = (), cal_max = Fin 10, cal_min = Fin 10\<rparr>
   \<and> getitem [Fin 10, NaN] (dataobj scenario_atlas ! 1 - 1) = Inr NaN
   \<and> dataobj scenario_atlas ! 2 = 0
   \<and> np_min (filter (\<lambda>x. \<not> isnan x) [Fin 10, NaN]) = Inr (Fin 10)
   \<and> [Fin 10, Fin (- 19990), Fin (- 19990), Fin (- 19990)] ! 1 = fsub (Fin 10) (Fin 20000)
   \<and> [Fin 10, Fin (- 19990), Fin (- 19990), Fin (- 19990)] ! 2 = fsub (Fin 10) (Fin 20000)"
proof -
  have m: "np_min (filter (\<lambda>x. \<not> isnan x) [Fin 10, NaN]) = Inr (Fin 10)"
    by (simp add: np_min_def isnan_def)
  have g: "getitem [Fin 10, NaN] (dataobj scenario_atlas ! 1 - 1) = Inr NaN"
    by (simp add: getitem_def)
  have z: "dataobj scenario_atlas ! 2 = 0"
    by simp
  from map_to_atlas_masked [OF scenario_run_missing, of 1] g obtain m1 where
    "np_min (filter (\<lambda>x. \<not> isnan x) [Fin 10, NaN]) = Inr m1"
    "[Fin 10, Fin (- 19990), Fin (- 19990), Fin (- 19990)] ! 1 = fsub m1 (Fin 20000)"
    by auto
  with m have one:
    "[Fin 10, Fin (- 19990), Fin (- 19990), Fin (- 19990)] ! 1 = fsub (Fin 10) (Fin 20000)"
    by simp
  from map_to_atlas_masked [OF scenario_run_missing, of 2] z obtain m2 where
    "np_min (filter (\<lambda>x. \<not> isnan x) [Fin 10, NaN]) = Inr m2"
    "[Fin 10, Fin (- 19990), Fin (- 19990), Fin (- 19990)] ! 2 = fsub m2 (Fin 20000)"
    by auto
  with m have two:
    "[Fin 10, Fin (- 19990), Fin (- 19990), Fin (- 19990)] ! 2 = fsub (Fin 10) (Fin 20000)"
    by simp
  from scenario_run_missing m g z one two show ?thesis
    by blast
qed

text \<open>
  Claim C5 (geometry). A mapped volume that map_to_atlas returns has the shape and the affine
  of the atlas, and as many voxels.
\<close>

theorem map_to_atlas_geometry:
  assumes "map_to_atlas marker atlas = Inr img"
  shows "shape img = shape atlas \<and> affine img = affine atlas \<and>
         length (dataobj img) = length (dataobj atlas)"
proof -
  let ?A = "dataobj atlas"
  from assms obtain m mx arr1 where
    loop: "roi_loop marker ?A (np_unique ?A) (np_zeros (length ?A)) = Inr arr1" and
    img: "img = \<lparr>shape = shape atlas,
            dataobj = assign_where (\<lambda>a. a = 0) ?A (fsub m (Fin 20000))
                        (assign_where isnan arr1 (fsub m (Fin 20000)) arr1),
            affine = affine atlas, cal_max = mx, cal_min = m\<rparr>"
    by (rule map_to_atlas_Inr)
  have "length arr1 = length ?A"
    by (rule roi_loop_length [OF loop]) (simp add: np_zeros_def)
  then show ?thesis by (simp add: img length_assign_where)
qed

theorem map_to_atlas_geometry_witness:
  "map_to_atlas [Fin 10, Fin 20] scenario_atlas =
     Inr \<lparr>shape = [2, 2, 1], dataobj = [Fin 10, Fin 20, Fin (- 19990), Fin (- 19990)],
          affine = (), cal_max = Fin 20, cal_min = Fin 10\<rparr>
   \<and> [2, 2, 1] = shape scenario_atlas
   \<and> length [Fin 10, Fin 20, Fin (- 19990), Fin (- 19990)] = length (dataobj scenario_atlas)"
  using map_to_atlas_geometry [OF scenario_run] scenario_run
  by simp



subsection \<open>The sentinel and the rounding of the subtraction\<close>

text \<open>
  \<open>round64\<close> is within half a unit in the last place of its argument; below \<open>2 ^ 54\<close> that
  is at most 1, so for a minimum of magnitude at most \<open>2 ^ 53\<close> the sentinel lies strictly
  below the minimum.
\<close>

lemma round_half_even_close: "\<bar>of_int (round_half_even q) - q\<bar> \<le> 1 / 2"
  unfolding round_half_even_def Let_def by (auto; linarith)

lemma ilog2_le: "a < 2 ^ 54 \<Longrightarrow> ilog2 a \<le> 53"
proof -
  assume a: "a < 2 ^ 54"
  show ?thesis
  proof (cases "1 \<le> a")
    case True
    have "\<lfloor>a\<rfloor> < 2 ^ 54" using a by (simp add: floor_less_iff)
    then have "bitlen \<lfloor>a\<rfloor> \<le> 54" by (simp add: bitlen_le_iff_power)
    with True show ?thesis by (simp add: ilog2_def)
  next
    case False
    have "0 \<le> bitlen (\<lceil>1 / a\<rceil> - 1)" by (rule bitlen_nonneg)
    with False show ?thesis by (simp add: ilog2_def)
  qed
qed

lemma round64_close:
  assumes "x \<noteq> 0" and "\<bar>x\<bar> < 2 ^ 54"
  shows "\<exists>r. round64 x = Fin r \<and> \<bar>r - x\<bar> \<le> 1"
proof -
  define a where "a = \<bar>x\<bar>"
  define e where "e = max (ilog2 a) (- 1022)"
  define ulp :: real where "ulp = 2 powi (e - 52)"
  define y where "y = of_int (round_half_even (a / ulp)) * ulp"
  have e: "e \<le> 53" using ilog2_le [of a] assms(2) by (simp add: e_def a_def)
  have ulp_pos: "0 < ulp" by (simp add: ulp_def)
  have "ulp \<le> 2 powi 1" unfolding ulp_def using e by (intro power_int_increasing) auto
  then have ulp_le: "ulp \<le> 2" by simp
  have "\<bar>of_int (round_half_even (a / ulp)) - a / ulp\<bar> \<le> 1 / 2"
    by (rule round_half_even_close)
  then have "\<bar>of_int (round_half_even (a / ulp)) - a / ulp\<bar> * \<bar>ulp\<bar> \<le> 1 / 2 * ulp"
    using ulp_pos by (intro mult_mono) auto
  moreover have "(of_int (round_half_even (a / ulp)) - a / ulp) * ulp = y - a"
    using ulp_pos by (simp add: y_def left_diff_distrib)
  ultimately have "\<bar>y - a\<bar> \<le> ulp / 2"
    by (simp flip: abs_mult)
  with ulp_le have close: "\<bar>y - a\<bar> \<le> 1" by simp
  have "y < 2 ^ 54 + 1" using close assms(2) by (simp add: a_def)
  also have "\<dots> < (2 :: real) ^ 1024" by simp
  finally have "\<not> 2 powi 1024 \<le> y" by simp
  then have r: "round64 x = Fin (if x < 0 then - y else y)"
    using assms(1) by (simp add: round64_def Let_def a_def e_def ulp_def y_def)
  have "\<bar>(if x < 0 then - y else y) - x\<bar> \<le> 1"
    using close by (auto simp: a_def)
  with r show ?thesis by blast
qed

lemma sentinel_below_min:
  assumes "\<bar>m\<bar> \<le> 2 ^ 53"
  shows "fless (fsub (Fin m) (Fin 20000)) (Fin m)"
proof (cases "m - 20000 = 0")
  case True
  then show ?thesis by (simp add: round64_def)
next
  case False
  have "\<bar>m - 20000\<bar> \<le> \<bar>m\<bar> + 20000" by simp
  also have "\<dots> < 2 ^ 54" using assms by simp
  finally obtain r where r: "round64 (m - 20000) = Fin r" "\<bar>r - (m - 20000)\<bar> \<le> 1"
    using round64_close [OF False] by blast
  then have "r < m" by simp
  with r(1) show ?thesis by simp
qed

text \<open>
  Claim C8 (sentinel exclusivity), as amended. The claim as stated fails for finite values:
  float64 subtraction rounds, and for a minimum as large in magnitude as \<open>- 2 ^ 100\<close> the
  difference \<open>marker_min - 20000\<close> rounds back to \<open>marker_min\<close>, so the voxels of the ROI that
  holds the minimum equal the sentinel (the counterexample below). What holds:
  when map_to_atlas returns a mapped volume and the float64 value of \<open>marker_min - 20000\<close> is
  strictly below \<open>marker_min\<close> (it is whenever \<open>\<bar>marker_min\<bar> \<le> 2 ^ 53\<close>, by
  \<open>sentinel_below_min\<close>), a voxel with a nonzero label and a non-NaN marker entry holds that
  entry, which is not the sentinel.
\<close>

theorem map_to_atlas_sentinel_exclusive:
  assumes "map_to_atlas marker atlas = Inr img"
    and "i < length (dataobj atlas)"
    and "dataobj atlas ! i \<noteq> 0"
    and "getitem marker (dataobj atlas ! i - 1) = Inr v" and "\<not> isnan v"
    and "np_min (filter (\<lambda>x. \<not> isnan x) marker) = Inr marker_min"
    and "fless (fsub marker_min (Fin 20000)) marker_min"
  shows "dataobj img ! i = v \<and> dataobj img ! i \<noteq> fsub marker_min (Fin 20000)"
proof -
  from map_to_atlas_voxel [OF assms(1,2)] assms(3,4,5) have d: "dataobj img ! i = v"
    by auto
  from getitem_mem [OF assms(4)] np_min_least [OF assms(6)] assms(5)
  have "\<not> fless v marker_min" by blast
  with assms(7) have "v \<noteq> fsub marker_min (Fin 20000)" by auto
  with d show ?thesis by simp
qed

theorem map_to_atlas_sentinel_exclusive_witness:
  "map_to_atlas [Fin 10, Fin 20] scenario_atlas =
     Inr \<lparr>shape = [2, 2, 1], dataobj = [Fin 10, Fin 20, Fin (- 19990), Fin (- 19990)],
          affine = (), cal_max = Fin 20, cal_min = Fin 10\<rparr>
   \<and> dataobj scenario_atlas ! 0 \<noteq> 0
   \<and> getitem [Fin 10, Fin 20] (dataobj scenario_atlas ! 0 - 1) = Inr (Fin 10)
   \<and> np_min (filter (\<lambda>x. \<not> isnan x) [Fin 10, Fin 20]) = Inr (Fin 10)
   \<and> fless (fsub (Fin 10) (Fin 20000)) (Fin 10)
   \<and> [Fin 10, Fin 20, Fin (- 19990), Fin (- 19990)] ! 0 \<noteq> fsub (Fin 10) (Fin 20000)"
proof -
  have m: "np_min (filter (\<lambda>x. \<not> isnan x) [Fin 10, Fin 20]) = Inr (Fin 10)"
    by code_simp
  have g: "getitem [Fin 10, Fin 20] (dataobj scenario_atlas ! 0 - 1) = Inr (Fin 10)"
    by (simp add: getitem_def)
  have nz: "dataobj scenario_atlas ! 0 \<noteq> 0"
    by simp
  have below: "fless (fsub (Fin 10) (Fin 20000)) (Fin 10)"
    by code_simp
  from map_to_atlas_sentinel_exclusive [OF scenario_run _ nz g _ m below]
  have "[Fin 10, Fin 20, Fin (- 19990), Fin (- 19990)] ! 0 \<noteq> fsub (Fin 10) (Fin 20000)"
    by (simp add: isnan_def)
  with scenario_run m g nz below show ?thesis
    by blast
qed

text \<open>
  The vector \<open>[- 2 ^ 100]\<close> on the atlas with the labels \<open>[1, 0]\<close>: the validation passes,
  every value is finite, and the voxel of ROI 1 holds \<open>- 2 ^ 100\<close>, which is also what
  \<open>marker_min - 20000\<close> evaluates to.
\<close>

theorem sentinel_collides_counterexample:
  "map_to_atlas [Fin (- (2 ^ 100))]
     \<lparr>shape = [2, 1, 1], dataobj = [1, 0], affine = (), cal_max = Fin 0, cal_min = Fin 0\<rparr>
   = Inr \<lparr>shape = [2, 1, 1], dataobj = [Fin (- (2 ^ 100)), Fin (- (2 ^ 100))],
          affine = (), cal_max = Fin (- (2 ^ 100)), cal_min = Fin (- (2 ^ 100))\<rparr>
   \<and> fsub (Fin (- (2 ^ 100))) (Fin 20000) = Fin (- (2 ^ 100))"
  by code_simp

section \<open>The claims about the length validation\<close>

text \<open>
  The validation compares the length of the vector with the number of distinct labels minus
  one. With a background voxel in the atlas that is the number of distinct nonzero labels,
  and a vector of any other length is rejected; the loop of \<open>main\<close> then stops before it
  writes the file of that marker.
\<close>

lemma distinct_nonzero_count:
  "0 \<in> set xs \<Longrightarrow> int (length (filter (\<lambda>k. k \<noteq> 0) (np_unique xs))) = int (card (set xs)) - 1"
proof -
  assume z: "0 \<in> set xs"
  have d: "distinct (np_unique xs)" by (simp add: np_unique_def)
  have "length (filter (\<lambda>k. k \<noteq> 0) (np_unique xs)) = card ({k. k \<noteq> 0} \<inter> set xs)"
    using distinct_length_filter [OF d, of "\<lambda>k. k \<noteq> 0"] by (simp add: set_np_unique)
  also have "{k. k \<noteq> 0} \<inter> set xs = set xs - {0}" by auto
  also have "card (set xs - {0}) = card (set xs) - 1" using z by simp
  finally show ?thesis using z card_gt_0_iff [of "set xs"] by (auto simp: int_ops)
qed

lemma map_to_atlas_rejects_with_background:
  assumes "0 \<in> set (dataobj atlas)"
    and "length (filter (\<lambda>k. k \<noteq> 0) (np_unique (dataobj atlas))) \<noteq> length marker"
  shows "map_to_atlas marker atlas = Inl AssertionError"
  using assms distinct_nonzero_count [OF assms(1)]
  unfolding map_to_atlas_AssertionError_iff by linarith

lemma marker_loop_stops:
  "map_to_atlas column parcellation = Inl e \<Longrightarrow>
   marker_loop parcellation output_folder ((marker, column) # rest) fs = (Some e, fs)"
  by simp

text \<open>
  Claim C4 (count mismatch rejection) at an atlas with no background voxel. The atlas with
  the labels \<open>[1, 2]\<close> has two distinct nonzero labels; a vector of length 1 passes the
  validation and map_to_atlas raises \<open>IndexError\<close> at ROI 2, not the mismatch error. The
  atlas with the labels \<open>[-1, 1, 2]\<close> has three; a vector of length 2 passes the validation,
  every index is in range, and the loop of \<open>main\<close> writes the file of the marker.
\<close>

theorem roi_count_check_without_background:
  "map_to_atlas [Fin 5]
     \<lparr>shape = [2, 1, 1], dataobj = [1, 2], affine = (), cal_max = Fin 0, cal_min = Fin 0\<rparr>
   = Inl IndexError
   \<and> marker_loop
       \<lparr>shape = [3, 1, 1], dataobj = [- 1, 1, 2], affine = (), cal_max = Fin 0, cal_min = Fin 0\<rparr>
       ''out/m'' [(''A'', [Fin 5, Fin 6])] [(''out/m'', Dir), (''out'', Dir)]
     = (None,
        [(''out/m/A.nii.gz'',
          File (Some \<lparr>shape = [3, 1, 1], dataobj = [Fin 5, Fin 5, Fin 6], affine = (),
                      cal_max = Fin 6, cal_min = Fin 5\<rparr>)),
         (''out/m'', Dir), (''out'', Dir)])"
  by code_simp

text \<open>
  Claim C10 (the validation without a background label). For an atlas with no voxel labelled
  0 and \<open>R\<close> distinct (nonzero) labels, map_to_atlas rejects a vector of length \<open>R\<close> with the
  mismatch error, and the validation passes exactly for the vectors of length \<open>R - 1\<close>.
\<close>

theorem length_validation_without_background:
  assumes "0 \<notin> set (dataobj atlas)"
    and "R = length (filter (\<lambda>k. k \<noteq> 0) (np_unique (dataobj atlas)))"
  shows "(length marker = R \<longrightarrow> map_to_atlas marker atlas = Inl AssertionError) \<and>
         (map_to_atlas marker atlas \<noteq> Inl AssertionError \<longleftrightarrow> int (length marker) = int R - 1)"
proof -
  from assms(1) have "filter (\<lambda>k. k \<noteq> 0) (np_unique (dataobj atlas)) = np_unique (dataobj atlas)"
    by (auto simp: filter_id_conv set_np_unique)
  with assms(2) have R: "R = card (set (dataobj atlas))"
    by (simp add: length_np_unique)
  show ?thesis unfolding map_to_atlas_AssertionError_iff R by auto
qed

theorem length_validation_without_background_witness:
  "0 \<notin> set (dataobj \<lparr>shape = [2, 1, 1], dataobj = [1, 2 :: int], affine = (), cal_max = Fin 0, cal_min = Fin 0\<rparr>)
   \<and> length (filter (\<lambda>k. k \<noteq> 0) (np_unique [1, 2])) = 2
   \<and> map_to_atlas [Fin 5, Fin 6]
       \<lparr>shape = [2, 1, 1], dataobj = [1, 2], affine = (), cal_max = Fin 0, cal_min = Fin 0\<rparr>
     = Inl AssertionError
   \<and> map_to_atlas [Fin 5]
       \<lparr>shape = [2, 1, 1], dataobj = [1, 2], affine = (), cal_max = Fin 0, cal_min = Fin 0\<rparr>
     \<noteq> Inl AssertionError"
proof -
  let ?A = "\<lparr>shape = [2, 1, 1], dataobj = [1, 2 :: int], affine = (), cal_max = Fin 0, cal_min = Fin 0\<rparr>"
  have z: "0 \<notin> set (dataobj ?A)" by simp
  have r: "2 = length (filter (\<lambda>k. k \<noteq> 0) (np_unique (dataobj ?A)))" by code_simp
  from length_validation_without_background [OF z r, of "[Fin 5, Fin 6]"]
  have a: "map_to_atlas [Fin 5, Fin 6] ?A = Inl AssertionError" by simp
  from length_validation_without_background [OF z r, of "[Fin 5]"]
  have b: "map_to_atlas [Fin 5] ?A \<noteq> Inl AssertionError" by simp
  from z r a b show ?thesis by simp
qed

section \<open>The claims about read_markers\<close>

text \<open>
  Claim C3 (format dispatch by extension). The assertion of read_markers lists \<open>.csv\<close>,
  \<open>.tsv\<close> and \<open>.csv\<close> again: a path is rejected with the assertion error unless its
  extension is \<open>.csv\<close> or \<open>.tsv\<close>, and for these two the result is that of the table reader
  with a comma or a tab. A path ending in \<open>.txt\<close> is therefore rejected, against the docstring
  and the message of the assertion.
\<close>

theorem read_markers_extension_dispatch:
  "(snd (splitext p) \<notin> {''.csv'', ''.tsv''} \<longrightarrow>
      read_markers loadtxt read_csv p = Inl AssertionError) \<and>
   (snd (splitext p) = ''.csv'' \<longrightarrow> read_markers loadtxt read_csv p = read_csv p (CHR '','')) \<and>
   (snd (splitext p) = ''.tsv'' \<longrightarrow> read_markers loadtxt read_csv p = read_csv p (CHR 0x09))"
  by (simp add: read_markers_def Let_def)

theorem read_markers_extension_dispatch_witness:
  "snd (splitext ''markers.txt'') = ''.txt''
   \<and> read_markers (\<lambda>p. Inr [Fin 1, Fin 2]) (\<lambda>p sep. Inl ParserError) ''markers.txt''
       = Inl AssertionError
   \<and> snd (splitext ''markers.csv'') = ''.csv''
   \<and> read_markers (\<lambda>p. Inl ParserError) (\<lambda>p sep. Inr [(''A'', [Fin 1, Fin 2])]) ''markers.csv''
       = Inr [(''A'', [Fin 1, Fin 2])]"
proof -
  have t: "snd (splitext ''markers.txt'') = ''.txt''" by code_simp
  have c: "snd (splitext ''markers.csv'') = ''.csv''" by code_simp
  from read_markers_extension_dispatch
    [of "''markers.txt''" "\<lambda>p. Inr [Fin 1, Fin 2]" "\<lambda>p sep. Inl ParserError"] t
  have a: "read_markers (\<lambda>p. Inr [Fin 1, Fin 2]) (\<lambda>p sep. Inl ParserError) ''markers.txt''
       = Inl AssertionError"
    by simp
  from read_markers_extension_dispatch
    [of "''markers.csv''" "\<lambda>p. Inl ParserError" "\<lambda>p sep. Inr [(''A'', [Fin 1, Fin 2])]"] c
  have b: "read_markers (\<lambda>p. Inl ParserError) (\<lambda>p sep. Inr [(''A'', [Fin 1, Fin 2])]) ''markers.csv''
       = Inr [(''A'', [Fin 1, Fin 2])]"
    by simp
  from t a c b show ?thesis by blast
qed

text \<open>
  Claim C7 (the single-column text format) at the file \<open>data/thickness.txt\<close> holding five
  numbers: read_markers raises the assertion error, it returns no table. The name its
  \<open>.txt\<close> branch would give the column is the last component of the path, extension included.
\<close>

theorem read_markers_txt_column:
  "read_markers (\<lambda>p. Inr [Fin 1, Fin 2, Fin 3, Fin 4, Fin 5]) (\<lambda>p sep. Inl ParserError)
     ''data/thickness.txt'' = Inl AssertionError
   \<and> snd (os_path_split ''data/thickness.txt'') = ''thickness.txt''"
  by code_simp

section \<open>The claim about prepare_output\<close>

text \<open>
  Claim C9 (output directory), as amended. With \<open>target\<close> the path of \<open>out_folder\<close> joined
  with the base name of the marker file, extension stripped: when \<open>out_folder\<close> is not an
  existing directory prepare_output raises \<open>FileNotFoundError\<close>; when it is one and \<open>target\<close>
  is a directory already, \<open>target\<close> is returned and nothing is created; when nothing is at
  \<open>target\<close>, the directory is created and returned; when a file that is not a directory is at
  \<open>target\<close>, \<open>os.mkdir\<close> raises \<open>FileExistsError\<close>. The claim as stated fails in the last case
  (the counterexample below).
\<close>

theorem prepare_output_cases:
  assumes "target = path_join out_folder (fst (splitext (snd (os_path_split marker_file))))"
  shows "(\<not> isdir fs out_folder \<longrightarrow>
            prepare_output fs out_folder marker_file = Inl FileNotFoundError) \<and>
         (isdir fs out_folder \<and> isdir fs target \<longrightarrow>
            prepare_output fs out_folder marker_file = Inr (target, fs)) \<and>
         (isdir fs out_folder \<and> map_of fs target = None \<longrightarrow>
            prepare_output fs out_folder marker_file = Inr (target, (target, Dir) # fs) \<and>
            isdir ((target, Dir) # fs) target) \<and>
         (isdir fs out_folder \<and> map_of fs target = Some (File content) \<longrightarrow>
            prepare_output fs out_folder marker_file = Inl FileExistsError)"
  using assms by (simp add: prepare_output_def Let_def mkdir_def isdir_def)

theorem prepare_output_cases_witness:
  "prepare_output [(''out'', Dir :: unit node)] ''nowhere'' ''data/m.csv'' = Inl FileNotFoundError
   \<and> prepare_output [(''out'', Dir :: unit node)] ''out'' ''data/m.csv''
       = Inr (''out/m'', [(''out/m'', Dir), (''out'', Dir)])
   \<and> prepare_output [(''out/m'', Dir), (''out'', Dir :: unit node)] ''out'' ''data/m.csv''
       = Inr (''out/m'', [(''out/m'', Dir), (''out'', Dir)])
   \<and> prepare_output [(''out/m'', File None), (''out'', Dir :: unit node)] ''out'' ''data/m.csv''
       = Inl FileExistsError"
proof -
  have t: "''out/m'' = path_join ''out'' (fst (splitext (snd (os_path_split ''data/m.csv''))))"
    by code_simp
  have t': "''nowhere/m'' = path_join ''nowhere'' (fst (splitext (snd (os_path_split ''data/m.csv''))))"
    by code_simp
  from prepare_output_cases [OF t', of "[(''out'', Dir :: unit node)]"]
  have a: "prepare_output [(''out'', Dir :: unit node)] ''nowhere'' ''data/m.csv'' = Inl FileNotFoundError"
    by (simp add: isdir_def)
  from prepare_output_cases [OF t, of "[(''out'', Dir :: unit node)]"]
  have b: "prepare_output [(''out'', Dir :: unit node)] ''out'' ''data/m.csv''
       = Inr (''out/m'', [(''out/m'', Dir), (''out'', Dir)])"
    by (simp add: isdir_def)
  from prepare_output_cases [OF t, of "[(''out/m'', Dir), (''out'', Dir :: unit node)]"]
  have c: "prepare_output [(''out/m'', Dir), (''out'', Dir :: unit node)] ''out'' ''data/m.csv''
       = Inr (''out/m'', [(''out/m'', Dir), (''out'', Dir)])"
    by (simp add: isdir_def)
  from prepare_output_cases [OF t, of "[(''out/m'', File None), (''out'', Dir :: unit node)]" None]
  have d: "prepare_output [(''out/m'', File None), (''out'', Dir :: unit node)] ''out'' ''data/m.csv''
       = Inl FileExistsError"
    by (simp add: isdir_def)
  from a b c d show ?thesis by blast
qed

text \<open>
  \<open>out\<close> is a directory and \<open>out/m\<close> a regular file: for the marker file \<open>data/m.csv\<close>
  prepare_output raises \<open>FileExistsError\<close>.
\<close>

theorem prepare_output_counterexample:
  "isdir [(''out/m'', File None), (''out'', Dir :: unit node)] ''out''
   \<and> prepare_output [(''out/m'', File None), (''out'', Dir :: unit node)] ''out'' ''data/m.csv''
       = Inl FileExistsError"
  by code_simp

end
